theory Spec2Isabelle
  imports Complex_Main "HOL-Library.Multiset" "HOL-Library.Product_Lexorder"
begin

section \<open>Data model\<close>

text \<open>
  The Prisma enums \<open>Role\<close> and \<open>FileStatus\<close>, and the rows of the tables \<open>File\<close> and
  \<open>Document\<close> as the migrations and the code use them. A table is the list of its rows in
  the store's natural row order. A JavaScript string is a \<open>string\<close>: one \<open>char\<close> stands for
  one code unit. An embedding is a list of numbers.
\<close>

datatype Role = USER | ADMIN | CONTRIBUTOR

datatype FileStatus = PENDING | PROCESSING | COMPLETED | FAILED | DUPLICATE

type_synonym bytes = "nat list"

type_synonym vector = "real list"

record User =
  user_id :: string
  role :: Role

record File =
  file_id :: string
  fileKey :: string
  originalName :: string
  fileHash :: "string option"
  mimeType :: string
  status :: FileStatus
  file_userId :: string
  isPublic :: bool

record Document =
  content :: string
  metadata :: "(string \<times> string) list"
  doc_userId :: string
  doc_fileId :: string
  embedding :: "vector option"

text \<open>
  The state the services share: the two tables and the object store (a bucket: key and bytes
  of each object).
\<close>

record world =
  files :: "File list"
  documents :: "Document list"
  objects :: "(string \<times> bytes) list"

text \<open>
  Thrown values. \<open>Error m\<close> is \<open>new Error(m)\<close>, \<open>ApiError c m\<close> is \<open>new ApiError(c, m)\<close>,
  and \<open>ServiceError n s m\<close> is an exception of an external client (object store, database,
  model provider) with its \<open>name\<close>, its \<open>$metadata.httpStatusCode\<close> when it has one, and its
  message.
\<close>

datatype error =
    Error string
  | ApiError nat string
  | ServiceError string "nat option" string

section \<open>Upload service: \<open>generateSignedUrl\<close>\<close>

definition allowedFileTypes :: "string list" where
  "allowedFileTypes =
     [''image/jpeg'', ''image/png'', ''image/gif'', ''image/webp'',
      ''application/pdf'', ''text/plain'', ''text/markdown'', ''text/csv'']"

definition maxFileSize :: int where
  "maxFileSize = 2 * 1024 * 1024"

text \<open>The characters kept by \<open>fileName.replace(/[^a-zA-Z0-9.\-_]/g, '')\<close>.\<close>

definition keptChars :: "char list" where
  "keptChars = ''abcdefghijklmnopqrstuvwxyz'' @ ''ABCDEFGHIJKLMNOPQRSTUVWXYZ''
     @ ''0123456789'' @ ''.-_''"

definition sanitizeFileName :: "string \<Rightarrow> string" where
  "sanitizeFileName fileName = filter (\<lambda>c. c \<in> set keptChars) fileName"

text \<open>
  What the call takes from outside: the value of \<open>uuidv4()\<close>, the identifier the database
  gives the new row, whether \<open>prisma.file.create\<close> throws, and what \<open>getSignedUrl\<close> returns
  for a key and a content type.
\<close>

record upload_env =
  uuidv4 :: string
  new_file_id :: string
  create_fault :: "error option"
  getSignedUrl_put :: "string \<Rightarrow> string \<Rightarrow> error + string"

record signed_upload =
  signedUrl :: string
  su_fileKey :: string
  su_fileId :: string

definition generateSignedUrl ::
  "upload_env \<Rightarrow> world \<Rightarrow> string \<Rightarrow> string \<Rightarrow> int \<Rightarrow> bool \<Rightarrow> User
     \<Rightarrow> (error + signed_upload) \<times> world" where
  "generateSignedUrl env w fileName fileType fileSize isPublicReq user =
     (if fileType \<notin> set allowedFileTypes then
        (Inl (ApiError 400
           ''Invalid file type. Only JPEG, PNG, GIF, WEBP, PDF, and TEXT files are allowed.''), w)
      else if fileSize > maxFileSize then
        (Inl (ApiError 400 ''File size must be less than 2MB.''), w)
      else if user_id user = [] then
        (Inl (ApiError 400 ''User ID is required for file upload.''), w)
      else
        let finalIsPublic =
              (if isPublicReq then
                 (if role user = ADMIN \<or> role user = CONTRIBUTOR then True else False)
               else False);
            sanitizedFileName = sanitizeFileName fileName;
            key = ''users/'' @ user_id user @ ''/'' @ uuidv4 env @ ''-'' @ sanitizedFileName
        in case create_fault env of
             Some e \<Rightarrow> (Inl e, w)
           | None \<Rightarrow>
               let file = \<lparr> file_id = new_file_id env, fileKey = key,
                             originalName = fileName, fileHash = None, mimeType = fileType,
                             status = PENDING, file_userId = user_id user,
                             isPublic = finalIsPublic \<rparr>;
                   w' = w\<lparr> files := files w @ [file] \<rparr>
               in case getSignedUrl_put env key fileType of
                    Inl e \<Rightarrow> (Inl e, w')
                  | Inr url \<Rightarrow>
                      (Inr \<lparr> signedUrl = url, su_fileKey = key, su_fileId = file_id file \<rparr>,
                       w'))"

section \<open>Ingestion worker: \<open>processJob\<close>\<close>

text \<open>
  The calls of \<open>processJob\<close> that leave the process. Each call site can throw; the \<open>Embed\<close>
  and \<open>Insert\<close> sites are reached once per chunk and carry the chunk's position.
\<close>

datatype call_site =
    FindUnique | UpdateProcessing | GetObject | DeleteReservation | TransformToByteArray
  | FindFirst | DeleteObject | UpdateDuplicate | UpdateHash | UpdateEmpty
  | Insert nat | UpdateCompleted | UpdateFailed

datatype pdf_text = Pages "string list" | Merged string

record chunk =
  pageContent :: string
  chunk_metadata :: "(string \<times> string) list"

text \<open>
  What the worker takes from outside: for each call site the exception it throws there, if
  any; whether the object store answers without a body; and the outcomes of the library and
  model calls (\<open>crypto\<close>'s SHA-256 in hex, \<open>unpdf\<close>'s \<open>extractText\<close>, \<open>generateText\<close> on an
  image, \<open>Buffer.toString('utf-8')\<close>, the text splitter's \<open>createDocuments\<close>, and \<open>embed\<close>).
  Calls of \<open>logger\<close> change neither the control flow nor the stores and are left out.
\<close>

record ingest_env =
  fault :: "call_site \<Rightarrow> error option"
  body_absent :: bool
  sha256_hex :: "bytes \<Rightarrow> string"
  extractText :: "bytes \<Rightarrow> error + pdf_text"
  generateText_image :: "bytes \<Rightarrow> error + string"
  toString_utf8 :: "bytes \<Rightarrow> string"
  createDocuments :: "string \<Rightarrow> error + chunk list"
  embed :: "string \<Rightarrow> error + vector"

record Job =
  job_id :: string
  data_fileId :: string

subsection \<open>The database and object-store primitives\<close>

definition findUnique :: "File list \<Rightarrow> string \<Rightarrow> File option" where
  "findUnique fs i = find (\<lambda>f. file_id f = i) fs"

text \<open>Prisma's \<open>update\<close> and \<open>delete\<close> throw when no row has the identifier.\<close>

definition recordNotFound :: error where
  "recordNotFound = ServiceError ''PrismaClientKnownRequestError'' None ''P2025''"

definition prisma_file_update ::
  "error option \<Rightarrow> string \<Rightarrow> (File \<Rightarrow> File) \<Rightarrow> world \<Rightarrow> (error + unit) \<times> world" where
  "prisma_file_update flt i upd w =
     (case flt of
        Some e \<Rightarrow> (Inl e, w)
      | None \<Rightarrow>
          (case findUnique (files w) i of
             None \<Rightarrow> (Inl recordNotFound, w)
           | Some _ \<Rightarrow>
               (Inr (), w\<lparr> files := map (\<lambda>f. if file_id f = i then upd f else f) (files w) \<rparr>)))"

definition prisma_file_delete ::
  "error option \<Rightarrow> string \<Rightarrow> world \<Rightarrow> (error + unit) \<times> world" where
  "prisma_file_delete flt i w =
     (case flt of
        Some e \<Rightarrow> (Inl e, w)
      | None \<Rightarrow>
          (case findUnique (files w) i of
             None \<Rightarrow> (Inl recordNotFound, w)
           | Some _ \<Rightarrow> (Inr (), w\<lparr> files := filter (\<lambda>f. file_id f \<noteq> i) (files w) \<rparr>)))"

definition noSuchKey :: error where
  "noSuchKey = ServiceError ''NoSuchKey'' (Some 404) ''The specified key does not exist.''"

text \<open>\<open>s3Client.send(new GetObjectCommand(..))\<close>: the response's \<open>Body\<close>, if it has one.\<close>

definition s3_getObject :: "ingest_env \<Rightarrow> world \<Rightarrow> string \<Rightarrow> error + bytes option" where
  "s3_getObject env w key =
     (case fault env GetObject of
        Some e \<Rightarrow> Inl e
      | None \<Rightarrow>
          (case map_of (objects w) key of
             None \<Rightarrow> Inl noSuchKey
           | Some b \<Rightarrow> Inr (if body_absent env then None else Some b)))"

text \<open>\<open>s3Client.send(new DeleteObjectCommand(..))\<close>: deleting an absent key succeeds.\<close>

definition s3_deleteObject :: "ingest_env \<Rightarrow> string \<Rightarrow> world \<Rightarrow> (error + unit) \<times> world" where
  "s3_deleteObject env key w =
     (case fault env DeleteObject of
        Some e \<Rightarrow> (Inl e, w)
      | None \<Rightarrow> (Inr (), w\<lparr> objects := filter (\<lambda>kv. fst kv \<noteq> key) (objects w) \<rparr>))"

text \<open>\<open>error.name === 'NoSuchKey' || error.$metadata?.httpStatusCode === 404\<close>\<close>

fun is_missing_object :: "error \<Rightarrow> bool" where
  "is_missing_object (ServiceError n st m) = (n = ''NoSuchKey'' \<or> st = Some 404)"
| "is_missing_object _ = False"

subsection \<open>Steps 3 to 7: parse, chunk, embed, save, mark completed\<close>

text \<open>\<open>String.prototype.trim\<close> removes white space at both ends; \<open>!text.trim()\<close> holds when
  nothing else is in the text.\<close>

definition is_white_space :: "char \<Rightarrow> bool" where
  "is_white_space c = (c \<in> set [CHR 0x09, CHR 0x0A, CHR 0x0B, CHR 0x0C, CHR 0x0D, CHR 0x20, CHR 0xA0])"

definition trim :: "string \<Rightarrow> string" where
  "trim s = rev (dropWhile is_white_space (rev (dropWhile is_white_space s)))"

fun join :: "string \<Rightarrow> string list \<Rightarrow> string" where
  "join sep [] = []"
| "join sep [x] = x"
| "join sep (x # y # ys) = x @ sep @ join sep (y # ys)"

definition parse_text :: "ingest_env \<Rightarrow> File \<Rightarrow> bytes \<Rightarrow> error + string" where
  "parse_text env f byteArray =
     (if mimeType f = ''application/pdf'' then
        (case extractText env byteArray of
           Inl e \<Rightarrow> Inl e
         | Inr (Pages ps) \<Rightarrow> Inr (join [CHR 0x0A] ps)
         | Inr (Merged t) \<Rightarrow> Inr t)
      else if take 6 (mimeType f) = ''image/'' then
        generateText_image env byteArray
      else Inr (toString_utf8 env byteArray))"

text \<open>The loop over the chunks: embed, then insert the row; the first exception ends it, and
  the rows already inserted stay.\<close>

fun embed_and_save ::
  "ingest_env \<Rightarrow> File \<Rightarrow> nat \<Rightarrow> chunk list \<Rightarrow> world \<Rightarrow> (error + unit) \<times> world" where
  "embed_and_save env f i [] w = (Inr (), w)"
| "embed_and_save env f i (c # cs) w =
     (case embed env (pageContent c) of
        Inl e \<Rightarrow> (Inl e, w)
      | Inr v \<Rightarrow>
          (case fault env (Insert i) of
             Some e \<Rightarrow> (Inl e, w)
           | None \<Rightarrow>
               embed_and_save env f (Suc i) cs
                 (w\<lparr> documents := documents w @
                      [\<lparr> content = pageContent c,
                         metadata = chunk_metadata c @ [(''originalName'', originalName f)],
                         doc_userId = file_userId f, doc_fileId = file_id f,
                         embedding = Some v \<rparr>] \<rparr>)))"

definition index_text :: "ingest_env \<Rightarrow> File \<Rightarrow> string \<Rightarrow> world \<Rightarrow> (error + unit) \<times> world" where
  "index_text env f text w =
     (if trim text = [] then
        prisma_file_update (fault env UpdateEmpty) (file_id f) (\<lambda>r. r\<lparr> status := FAILED \<rparr>) w
      else
        (case createDocuments env text of
           Inl e \<Rightarrow> (Inl e, w)
         | Inr chunks \<Rightarrow>
             (case embed_and_save env f 0 chunks w of
                (Inl e, w1) \<Rightarrow> (Inl e, w1)
              | (Inr _, w1) \<Rightarrow>
                  prisma_file_update (fault env UpdateCompleted) (file_id f)
                    (\<lambda>r. r\<lparr> status := COMPLETED \<rparr>) w1)))"

subsection \<open>Step 2: hash and duplicate check\<close>

definition findDuplicate :: "File list \<Rightarrow> File \<Rightarrow> string \<Rightarrow> File option" where
  "findDuplicate fs f h =
     find (\<lambda>r. file_userId r = file_userId f \<and> fileHash r = Some h \<and> status r = COMPLETED
                \<and> file_id r \<noteq> file_id f) fs"

definition dedup_and_index :: "ingest_env \<Rightarrow> File \<Rightarrow> bytes \<Rightarrow> world \<Rightarrow> (error + unit) \<times> world" where
  "dedup_and_index env f byteArray w =
     (let h = sha256_hex env byteArray in
      case fault env FindFirst of
        Some e \<Rightarrow> (Inl e, w)
      | None \<Rightarrow>
          (case findDuplicate (files w) f h of
             Some _ \<Rightarrow>
               (case s3_deleteObject env (fileKey f) w of
                  (Inl e, w1) \<Rightarrow> (Inl e, w1)
                | (Inr _, w1) \<Rightarrow>
                    prisma_file_update (fault env UpdateDuplicate) (file_id f)
                      (\<lambda>r. r\<lparr> status := DUPLICATE, fileHash := Some h \<rparr>) w1)
           | None \<Rightarrow>
               (case prisma_file_update (fault env UpdateHash) (file_id f)
                       (\<lambda>r. r\<lparr> fileHash := Some h \<rparr>) w of
                  (Inl e, w1) \<Rightarrow> (Inl e, w1)
                | (Inr _, w1) \<Rightarrow>
                    (case parse_text env f byteArray of
                       Inl e \<Rightarrow> (Inl e, w1)
                     | Inr text \<Rightarrow> index_text env f text w1))))"

subsection \<open>Steps 0 and 1, and the \<open>try\<close>/\<open>catch\<close> around everything\<close>

text \<open>The body of the \<open>try\<close> block.\<close>

definition ingest :: "ingest_env \<Rightarrow> Job \<Rightarrow> world \<Rightarrow> (error + unit) \<times> world" where
  "ingest env job w =
     (let fileId = data_fileId job in
      case fault env FindUnique of
        Some e \<Rightarrow> (Inl e, w)
      | None \<Rightarrow>
          (case findUnique (files w) fileId of
             None \<Rightarrow> (Inl (Error (''File record not found: '' @ fileId)), w)
           | Some fileRecord \<Rightarrow>
               (case prisma_file_update (fault env UpdateProcessing) fileId
                       (\<lambda>r. r\<lparr> status := PROCESSING \<rparr>) w of
                  (Inl e, w1) \<Rightarrow> (Inl e, w1)
                | (Inr _, w1) \<Rightarrow>
                    (case s3_getObject env w1 (fileKey fileRecord) of
                       Inl e \<Rightarrow>
                         (if is_missing_object e then
                            prisma_file_delete (fault env DeleteReservation) fileId w1
                          else (Inl e, w1))
                     | Inr None \<Rightarrow> (Inl (Error ''Empty body from S3''), w1)
                     | Inr (Some body) \<Rightarrow>
                         (case fault env TransformToByteArray of
                            Some e \<Rightarrow> (Inl e, w1)
                          | None \<Rightarrow> dedup_and_index env fileRecord body w1)))))"

text \<open>The \<open>catch\<close> block's update to FAILED, whose own failure \<open>.catch\<close> swallows.\<close>

definition mark_failed :: "ingest_env \<Rightarrow> string \<Rightarrow> world \<Rightarrow> world" where
  "mark_failed env fileId w =
     snd (prisma_file_update (fault env UpdateFailed) fileId (\<lambda>r. r\<lparr> status := FAILED \<rparr>) w)"

definition processJob :: "ingest_env \<Rightarrow> Job \<Rightarrow> world \<Rightarrow> (error + unit) \<times> world" where
  "processJob env job w =
     (case ingest env job w of
        (Inr u, w1) \<Rightarrow> (Inr u, w1)
      | (Inl e, w1) \<Rightarrow> (Inl e, mark_failed env (data_fileId job) w1))"

section \<open>Agent service: \<open>chat\<close>\<close>

record Message =
  msg_role :: string
  msg_content :: string

subsection \<open>The similarity query\<close>

text \<open>
  The raw query of \<open>chat\<close>, clause by clause. \<open>LEFT JOIN "File" f ON d."fileId" = f.id\<close>
  pairs every document with its file, or with NULL. The \<open>WHERE\<close> clause keeps a row when
  \<open>d."userId" = userId OR f."isPublic" = true\<close> is true (not NULL). The distance is the value
  of pgvector's \<open><=>\<close> on the row's embedding, NULL for a NULL embedding; \<open>ORDER BY distance ASC\<close>
  puts NULLs last and leaves rows of equal distance in row order; \<open>LIMIT 5\<close> keeps the first
  five. The operator \<open><=>\<close> itself is a parameter.
\<close>

type_synonym joined_row = "Document \<times> File option"

definition left_join :: "world \<Rightarrow> joined_row list" where
  "left_join w = map (\<lambda>d. (d, findUnique (files w) (doc_fileId d))) (documents w)"

definition where_clause :: "string \<Rightarrow> joined_row \<Rightarrow> bool" where
  "where_clause userId r =
     (doc_userId (fst r) = userId \<or> (case snd r of None \<Rightarrow> False | Some f \<Rightarrow> isPublic f = True))"

definition distance :: "(vector \<Rightarrow> vector \<Rightarrow> real) \<Rightarrow> vector \<Rightarrow> joined_row \<Rightarrow> real option" where
  "distance cosine q r = map_option (\<lambda>v. cosine v q) (embedding (fst r))"

definition asc_key :: "real option \<Rightarrow> bool \<times> real" where
  "asc_key d = (case d of None \<Rightarrow> (True, 0) | Some x \<Rightarrow> (False, x))"

definition similarity_rows ::
  "(vector \<Rightarrow> vector \<Rightarrow> real) \<Rightarrow> vector \<Rightarrow> string \<Rightarrow> world \<Rightarrow> joined_row list" where
  "similarity_rows cosine q userId w =
     take 5 (sort_key (\<lambda>r. asc_key (distance cosine q r))
               (filter (where_clause userId) (left_join w)))"

text \<open>The columns of the \<open>SELECT\<close>.\<close>

record doc_row =
  r_content :: string
  r_metadata :: "(string \<times> string) list"
  r_originalName :: "string option"
  r_fileKey :: "string option"
  r_isPublic :: "bool option"
  r_distance :: "real option"

definition select_columns :: "(vector \<Rightarrow> vector \<Rightarrow> real) \<Rightarrow> vector \<Rightarrow> joined_row \<Rightarrow> doc_row" where
  "select_columns cosine q r =
     \<lparr> r_content = content (fst r), r_metadata = metadata (fst r),
       r_originalName = map_option originalName (snd r),
       r_fileKey = map_option fileKey (snd r),
       r_isPublic = map_option isPublic (snd r),
       r_distance = distance cosine q r \<rparr>"

subsection \<open>The operation\<close>

text \<open>
  What \<open>chat\<close> takes from outside: the outcome of the rewriter's \<open>generateText\<close> on the
  conversation, of \<open>embed\<close> on the search query, the exception of \<open>$queryRaw\<close> if it throws,
  the outcome of \<open>getSignedUrl\<close> for a key, and pgvector's distance operator.
\<close>

record chat_env =
  generateText_rewrite :: "Message list \<Rightarrow> error + string"
  embed_query :: "string \<Rightarrow> error + vector"
  queryRaw_fault :: "error option"
  getSignedUrl_get :: "string \<Rightarrow> error + string"
  cosine_distance :: "vector \<Rightarrow> vector \<Rightarrow> real"

text \<open>The calls to the model provider and the database that \<open>chat\<close> makes, in order.\<close>

datatype agent_call =
    RewriteCall "Message list"
  | EmbedCall string
  | QueryCall vector string
  | StreamCall "Message list" string

text \<open>Step 1: the search query, and the rewriter call if one was made.\<close>

definition refine_query :: "chat_env \<Rightarrow> Message list \<Rightarrow> string \<times> agent_call list" where
  "refine_query env messages =
     (let searchQuery = msg_content (last messages) in
      if length messages > 1 then
        (case generateText_rewrite env messages of
           Inr text \<Rightarrow> (text, [RewriteCall messages])
         | Inl e \<Rightarrow> (searchQuery, [RewriteCall messages]))
      else (searchQuery, []))"

text \<open>Step 5: one line of context per row, with the link or \<open>unavailable\<close>.\<close>

definition package_doc :: "chat_env \<Rightarrow> doc_row \<Rightarrow> string" where
  "package_doc env doc =
     (let signedUrl =
            (case r_fileKey doc of
               None \<Rightarrow> ''unavailable''
             | Some key \<Rightarrow>
                 (if key = [] then ''unavailable''
                  else (case getSignedUrl_get env key of
                          Inr url \<Rightarrow> url
                        | Inl e \<Rightarrow> ''unavailable'')));
          visibilityLabel =
            (if r_isPublic doc = Some True then ''[Public Doc]'' else ''[User's Private Doc]'')
      in ''[Source: '' @ (case r_originalName doc of None \<Rightarrow> ''null'' | Some n \<Rightarrow> n)
         @ '' | Link: '' @ signedUrl @ '' | Visibility: '' @ visibilityLabel @ ''] ''
         @ [CHR 0x0A] @ ''Content: '' @ r_content doc)"

text \<open>Steps 2 to 6, from the search query on. The result is the request handed to
  \<open>streamText\<close>: the conversation and the context that goes into the system prompt.\<close>

definition retrieve_and_answer ::
  "chat_env \<Rightarrow> world \<Rightarrow> Message list \<Rightarrow> string \<Rightarrow> string
     \<Rightarrow> (error + Message list \<times> string) \<times> agent_call list" where
  "retrieve_and_answer env w messages userId searchQuery =
     (case embed_query env searchQuery of
        Inl e \<Rightarrow> (Inl e, [EmbedCall searchQuery])
      | Inr v \<Rightarrow>
          (case queryRaw_fault env of
             Some e \<Rightarrow> (Inl e, [EmbedCall searchQuery, QueryCall v userId])
           | None \<Rightarrow>
               (let documents = map (select_columns (cosine_distance env) v)
                                  (similarity_rows (cosine_distance env) v userId w);
                    context = join [CHR 0x0A, CHR 0x0A] (map (package_doc env) documents)
                in (Inr (messages, context),
                    [EmbedCall searchQuery, QueryCall v userId, StreamCall messages context]))))"

definition chat ::
  "chat_env \<Rightarrow> world \<Rightarrow> Message list \<Rightarrow> string
     \<Rightarrow> (error + Message list \<times> string) \<times> agent_call list" where
  "chat env w messages userId =
     (if messages = [] \<or> msg_content (last messages) = [] then
        (Inl (ApiError 400 ''Messages content is required''), [])
      else
        (case refine_query env messages of
           (searchQuery, calls1) \<Rightarrow>
             (case retrieve_and_answer env w messages userId searchQuery of
                (res, calls2) \<Rightarrow> (res, calls1 @ calls2))))"

text \<open>The calls of \<open>chat\<close> that go to the query rewriter.\<close>

definition is_rewrite_call :: "agent_call \<Rightarrow> bool" where
  "is_rewrite_call c = (case c of RewriteCall ms \<Rightarrow> True | _ \<Rightarrow> False)"

section \<open>Chat validation: \<open>chatBodySchema\<close>\<close>

text \<open>A request body, as \<open>JSON.parse\<close> delivers it.\<close>

datatype json =
    JNull | JBool bool | JNum real | JStr string
  | JArr "json list" | JObj "(string \<times> json) list"

text \<open>The property of an object under a key: the last occurrence of the key counts.\<close>

definition property :: "(string \<times> json) list \<Rightarrow> string \<Rightarrow> json option" where
  "property kvs k = map_of (rev kvs) k"

text \<open>
  The zod combinators the schema is built from, each as the set of values it accepts:
  \<open>z.string()\<close>, \<open>z.enum([..])\<close>, \<open>z.object({..})\<close> (every listed key must be present and
  pass its schema; other keys are ignored) and \<open>z.array(s).min(n)\<close>.
\<close>

definition z_string :: "json \<Rightarrow> bool" where
  "z_string j = (case j of JStr s \<Rightarrow> True | _ \<Rightarrow> False)"

definition z_enum :: "string list \<Rightarrow> json \<Rightarrow> bool" where
  "z_enum vs j = (case j of JStr s \<Rightarrow> s \<in> set vs | _ \<Rightarrow> False)"

definition z_object :: "(string \<times> (json \<Rightarrow> bool)) list \<Rightarrow> json \<Rightarrow> bool" where
  "z_object shape j =
     (case j of
        JObj kvs \<Rightarrow>
          list_all (\<lambda>ks. case property kvs (fst ks) of None \<Rightarrow> False | Some v \<Rightarrow> snd ks v) shape
      | _ \<Rightarrow> False)"

definition z_array_min :: "(json \<Rightarrow> bool) \<Rightarrow> nat \<Rightarrow> json \<Rightarrow> bool" where
  "z_array_min s n j = (case j of JArr xs \<Rightarrow> n \<le> length xs \<and> list_all s xs | _ \<Rightarrow> False)"

definition messageSchema :: "json \<Rightarrow> bool" where
  "messageSchema =
     z_object [(''role'', z_enum [''user'', ''assistant'', ''system'', ''data'']),
               (''content'', z_string)]"

definition chatBodySchema :: "json \<Rightarrow> bool" where
  "chatBodySchema = z_object [(''messages'', z_array_min messageSchema 1)]"

text \<open>
  The shape the specification gives for a chat request: \<open>messages\<close> is an array of
  \<open>{role, content}\<close> objects with role "user" or "assistant" and a string content, it has at
  least one element, and the role of its last element is "user".
\<close>

definition spec_message :: "json \<Rightarrow> bool" where
  "spec_message m =
     (case m of
        JObj kvs \<Rightarrow>
          (property kvs ''role'' = Some (JStr ''user'')
             \<or> property kvs ''role'' = Some (JStr ''assistant''))
          \<and> (case property kvs ''content'' of Some (JStr c) \<Rightarrow> True | _ \<Rightarrow> False)
      | _ \<Rightarrow> False)"

definition role_of :: "json \<Rightarrow> json option" where
  "role_of m = (case m of JObj kvs \<Rightarrow> property kvs ''role'' | _ \<Rightarrow> None)"

definition spec_chat_body :: "json \<Rightarrow> bool" where
  "spec_chat_body body =
     (case body of
        JObj kvs \<Rightarrow>
          (case property kvs ''messages'' of
             Some (JArr ms) \<Rightarrow>
               ms \<noteq> [] \<and> list_all spec_message ms \<and> role_of (last ms) = Some (JStr ''user'')
           | _ \<Rightarrow> False)
      | _ \<Rightarrow> False)"

section \<open>Chunker\<close>

text \<open>
  Modelled from the spec: the chunker of section 4.2. The worker hands chunking to
  \<open>RecursiveCharacterTextSplitter\<close> of the package \<open>@langchain/textsplitters\<close> with
  \<open>chunkSize: 1000\<close> and \<open>chunkOverlap: 200\<close>; the splitter's code is not part of the sources.
  The definition follows the specification's words: a deterministic fixed-size sliding
  window of target length 1000 in which each chunk after the first repeats the last 200
  characters of its predecessor before continuing.
\<close>

definition chunkSize :: nat where
  "chunkSize = 1000"

definition chunkOverlap :: nat where
  "chunkOverlap = 200"

function chunker :: "string \<Rightarrow> string list" where
  "chunker t =
     (if length t \<le> chunkSize then [t]
      else take chunkSize t # chunker (drop (chunkSize - chunkOverlap) t))"
  by pat_completeness auto
termination
  by (relation "measure length") (auto simp: chunkSize_def chunkOverlap_def)

declare chunker.simps [simp del]

text \<open>The non-overlapping portions of the chunks, in order: the first chunk whole, and every
  later chunk without the characters it repeats.\<close>

fun non_overlapping :: "string list \<Rightarrow> string" where
  "non_overlapping [] = []"
| "non_overlapping (c # cs) = c @ concat (map (drop chunkOverlap) cs)"

section \<open>Example inputs\<close>

text \<open>A text of 1800 characters: the ten digits, 180 times.\<close>

definition digits_1800 :: string where
  "digits_1800 = concat (replicate 180 ''0123456789'')"

text \<open>
  A store with three files (one of alice, a private and a public one of bob) and four
  chunks. In the examples the distance operator is precomputed: it reads the distance from
  the first component of the stored vector.
\<close>

definition alice_file :: File where
  "alice_file = \<lparr> file_id = ''f-alice'', fileKey = ''users/alice/1-notes.txt'',
     originalName = ''notes.txt'', fileHash = Some ''h1'', mimeType = ''text/plain'',
     status = COMPLETED, file_userId = ''alice'', isPublic = False \<rparr>"

definition bob_private :: File where
  "bob_private = \<lparr> file_id = ''f-bob'', fileKey = ''users/bob/2-diary.txt'',
     originalName = ''diary.txt'', fileHash = Some ''h2'', mimeType = ''text/plain'',
     status = COMPLETED, file_userId = ''bob'', isPublic = False \<rparr>"

definition bob_public :: File where
  "bob_public = \<lparr> file_id = ''f-pub'', fileKey = ''users/bob/3-budget.pdf'',
     originalName = ''budget.pdf'', fileHash = Some ''h3'', mimeType = ''application/pdf'',
     status = COMPLETED, file_userId = ''bob'', isPublic = True \<rparr>"

definition doc_far :: Document where
  "doc_far = \<lparr> content = ''far'', metadata = [], doc_userId = ''alice'',
     doc_fileId = ''f-alice'', embedding = Some [0.9] \<rparr>"

definition doc_secret :: Document where
  "doc_secret = \<lparr> content = ''secret'', metadata = [], doc_userId = ''bob'',
     doc_fileId = ''f-bob'', embedding = Some [0] \<rparr>"

definition doc_mid :: Document where
  "doc_mid = \<lparr> content = ''mid'', metadata = [], doc_userId = ''bob'',
     doc_fileId = ''f-pub'', embedding = Some [0.5] \<rparr>"

definition doc_near :: Document where
  "doc_near = \<lparr> content = ''near'', metadata = [], doc_userId = ''alice'',
     doc_fileId = ''f-alice'', embedding = Some [0.1] \<rparr>"

definition retrieval_world :: world where
  "retrieval_world = \<lparr> files = [alice_file, bob_private, bob_public],
     documents = [doc_far, doc_secret, doc_mid, doc_near], objects = [] \<rparr>"

fun precomputed :: "vector \<Rightarrow> vector \<Rightarrow> real" where
  "precomputed [] q = 1"
| "precomputed (x # xs) q = x"

text \<open>
  A chat environment whose rewriter always fails, whose embedding and query succeed, and two
  conversations: a single question, and a third turn after an answer.
\<close>

definition model_down :: error where
  "model_down = ServiceError ''AI_APICallError'' (Some 503) ''model overloaded''"

definition failing_rewriter :: "Message list \<Rightarrow> error + string" where
  "failing_rewriter ms = Inl model_down"

definition example_embed_query :: "string \<Rightarrow> error + vector" where
  "example_embed_query s = Inr []"

definition example_link :: "string \<Rightarrow> error + string" where
  "example_link key = Inr (''https://bucket.example/'' @ key)"

definition example_chat_env :: chat_env where
  "example_chat_env = \<lparr> generateText_rewrite = failing_rewriter,
     embed_query = example_embed_query, queryRaw_fault = None,
     getSignedUrl_get = example_link, cosine_distance = precomputed \<rparr>"

definition one_turn :: "Message list" where
  "one_turn = [\<lparr> msg_role = ''user'', msg_content = ''What is the budget?'' \<rparr>]"

definition three_turns :: "Message list" where
  "three_turns =
     [\<lparr> msg_role = ''user'', msg_content = ''Who is the CEO?'' \<rparr>,
      \<lparr> msg_role = ''assistant'', msg_content = ''John Doe is the CEO.'' \<rparr>,
      \<lparr> msg_role = ''user'', msg_content = ''What is his email?'' \<rparr>]"

text \<open>
  Request bodies: a single user message; a conversation that ends with a system message; and
  a body without messages.
\<close>

definition user_body :: json where
  "user_body =
     JObj [(''messages'',
            JArr [JObj [(''role'', JStr ''user''), (''content'', JStr ''What is the budget?'')]])]"

definition system_last_body :: json where
  "system_last_body =
     JObj [(''messages'',
            JArr [JObj [(''role'', JStr ''user''), (''content'', JStr ''What is the budget?'')],
                  JObj [(''role'', JStr ''system''), (''content'', JStr ''Answer in French.'')]])]"

definition no_messages_body :: json where
  "no_messages_body = JObj [(''messages'', JArr [])]"

text \<open>
  An ingestion environment without failures: the uploaded object holds the bytes of
  \<open>hello world\<close>, which the splitter cuts at the blank. Variants of it fail at one call.
\<close>

definition hello_bytes :: bytes where
  "hello_bytes = [104, 101, 108, 108, 111, 32, 119, 111, 114, 108, 100]"

definition example_utf8 :: "bytes \<Rightarrow> string" where
  "example_utf8 bs = (if bs = hello_bytes then ''hello world'' else [])"

definition example_sha256 :: "bytes \<Rightarrow> string" where
  "example_sha256 bs = (if bs = hello_bytes then ''b94d27b9'' else ''e3b0c442'')"

definition example_pdf :: "bytes \<Rightarrow> error + pdf_text" where
  "example_pdf bs = Inr (Merged (example_utf8 bs))"

definition example_image :: "bytes \<Rightarrow> error + string" where
  "example_image bs = Inr ''A picture.''"

definition example_splitter :: "string \<Rightarrow> error + chunk list" where
  "example_splitter t =
     Inr [\<lparr> pageContent = take 5 t, chunk_metadata = [] \<rparr>,
          \<lparr> pageContent = drop 6 t, chunk_metadata = [] \<rparr>]"

definition example_embed :: "string \<Rightarrow> error + vector" where
  "example_embed t = Inr [real (length t)]"

definition no_fault :: "call_site \<Rightarrow> error option" where
  "no_fault c = None"

definition quiet_env :: ingest_env where
  "quiet_env = \<lparr> fault = no_fault, body_absent = False, sha256_hex = example_sha256,
     extractText = example_pdf, generateText_image = example_image,
     toString_utf8 = example_utf8, createDocuments = example_splitter,
     embed = example_embed \<rparr>"

definition s3_down :: error where
  "s3_down = ServiceError ''InternalError'' (Some 500) ''We encountered an internal error.''"

definition db_down :: error where
  "db_down = ServiceError ''PrismaClientInitializationError'' None ''cannot reach database''"

definition delete_fails :: "call_site \<Rightarrow> error option" where
  "delete_fails c = (if c = DeleteObject then Some s3_down else None)"

definition delete_fails_env :: ingest_env where
  "delete_fails_env = quiet_env\<lparr> fault := delete_fails \<rparr>"

definition embed_second_fails :: "string \<Rightarrow> error + vector" where
  "embed_second_fails t = (if t = ''world'' then Inl model_down else Inr [real (length t)])"

definition embed_fails_env :: ingest_env where
  "embed_fails_env = quiet_env\<lparr> embed := embed_second_fails \<rparr>"

definition mark_fails :: "call_site \<Rightarrow> error option" where
  "mark_fails c = (if c = UpdateFailed then Some db_down else None)"

definition embed_and_mark_fail_env :: ingest_env where
  "embed_and_mark_fail_env = quiet_env\<lparr> embed := embed_second_fails, fault := mark_fails \<rparr>"

definition job_1 :: Job where
  "job_1 = \<lparr> job_id = ''job-1'', data_fileId = ''file-1'' \<rparr>"

definition upload_file :: File where
  "upload_file = \<lparr> file_id = ''file-1'', fileKey = ''users/alice/9-hello.txt'',
     originalName = ''hello.txt'', fileHash = None, mimeType = ''text/plain'',
     status = PENDING, file_userId = ''alice'', isPublic = False \<rparr>"

definition earlier_file :: File where
  "earlier_file = \<lparr> file_id = ''file-0'', fileKey = ''users/alice/8-hello.txt'',
     originalName = ''hello.txt'', fileHash = Some ''b94d27b9'', mimeType = ''text/plain'',
     status = COMPLETED, file_userId = ''alice'', isPublic = False \<rparr>"

definition empty_world :: world where
  "empty_world = \<lparr> files = [], documents = [], objects = [] \<rparr>"

definition upload_world :: world where
  "upload_world = \<lparr> files = [upload_file], documents = [],
     objects = [(''users/alice/9-hello.txt'', hello_bytes)] \<rparr>"

definition duplicate_world :: world where
  "duplicate_world = \<lparr> files = [earlier_file, upload_file], documents = [],
     objects = [(''users/alice/8-hello.txt'', hello_bytes),
                (''users/alice/9-hello.txt'', hello_bytes)] \<rparr>"

text \<open>
  An upload environment in which the reservation and the signing succeed, and three users,
  one of each role.
\<close>

definition example_put_link :: "string \<Rightarrow> string \<Rightarrow> error + string" where
  "example_put_link key contentType = Inr (''https://bucket.example/'' @ key)"

definition example_upload_env :: upload_env where
  "example_upload_env = \<lparr> uuidv4 = ''9'', new_file_id = ''file-1'', create_fault = None,
     getSignedUrl_put = example_put_link \<rparr>"

definition admin_user :: User where
  "admin_user = \<lparr> user_id = ''root'', role = ADMIN \<rparr>"

definition contributor_user :: User where
  "contributor_user = \<lparr> user_id = ''carol'', role = CONTRIBUTOR \<rparr>"

definition plain_user :: User where
  "plain_user = \<lparr> user_id = ''alice'', role = USER \<rparr>"

section \<open>Properties\<close>

text \<open>
  C10. A call of \<open>generateSignedUrl\<close> creates a File reservation row exactly when the file
  type is allowed, the size is within the limit, the user has an identifier and the insertion
  does not fail. The row is then the one appended to the table, it carries the identifier the
  call returns, and it is public exactly when the request asked for a public file and the
  user's role is ADMIN or CONTRIBUTOR: for every other user the row is private whatever flag
  the request carried. In every other case the table is left as it was and the call fails.
\<close>

theorem generateSignedUrl_isPublic:
  "(fileType \<in> set allowedFileTypes \<and> fileSize \<le> maxFileSize \<and> user_id user \<noteq> []
      \<and> create_fault env = None \<longrightarrow>
      (\<exists>row. files (snd (generateSignedUrl env w fileName fileType fileSize isPublicReq user))
               = files w @ [row]
             \<and> file_id row = new_file_id env \<and> originalName row = fileName
             \<and> mimeType row = fileType \<and> status row = PENDING
             \<and> file_userId row = user_id user
             \<and> (isPublic row = (isPublicReq \<and> (role user = ADMIN \<or> role user = CONTRIBUTOR)))
             \<and> (role user \<noteq> ADMIN \<and> role user \<noteq> CONTRIBUTOR \<longrightarrow> isPublic row = False)
             \<and> (\<forall>out. fst (generateSignedUrl env w fileName fileType fileSize isPublicReq user)
                          = Inr out
                      \<longrightarrow> su_fileId out = file_id row \<and> su_fileKey out = fileKey row)))
   \<and> (\<not> (fileType \<in> set allowedFileTypes \<and> fileSize \<le> maxFileSize \<and> user_id user \<noteq> []
           \<and> create_fault env = None) \<longrightarrow>
        files (snd (generateSignedUrl env w fileName fileType fileSize isPublicReq user)) = files w
        \<and> (\<exists>e. fst (generateSignedUrl env w fileName fileType fileSize isPublicReq user)
                  = Inl e))"
proof (rule conjI; rule impI)
  assume ok: "fileType \<in> set allowedFileTypes \<and> fileSize \<le> maxFileSize \<and> user_id user \<noteq> []
      \<and> create_fault env = None"
  let ?key = "''users/'' @ user_id user @ ''/'' @ uuidv4 env @ ''-'' @ sanitizeFileName fileName"
  let ?row = "\<lparr> file_id = new_file_id env, fileKey = ?key, originalName = fileName,
                 fileHash = None, mimeType = fileType, status = PENDING,
                 file_userId = user_id user,
                 isPublic = (isPublicReq \<and> (role user = ADMIN \<or> role user = CONTRIBUTOR)) \<rparr>"
  have w': "files (snd (generateSignedUrl env w fileName fileType fileSize isPublicReq user))
      = files w @ [?row]"
    using ok by (auto simp: generateSignedUrl_def Let_def split: sum.splits)
  have out: "\<forall>out. fst (generateSignedUrl env w fileName fileType fileSize isPublicReq user)
                 = Inr out
               \<longrightarrow> su_fileId out = file_id ?row \<and> su_fileKey out = fileKey ?row"
    using ok by (auto simp: generateSignedUrl_def Let_def split: sum.splits)
  show "\<exists>row. files (snd (generateSignedUrl env w fileName fileType fileSize isPublicReq user))
               = files w @ [row]
             \<and> file_id row = new_file_id env \<and> originalName row = fileName
             \<and> mimeType row = fileType \<and> status row = PENDING
             \<and> file_userId row = user_id user
             \<and> (isPublic row = (isPublicReq \<and> (role user = ADMIN \<or> role user = CONTRIBUTOR)))
             \<and> (role user \<noteq> ADMIN \<and> role user \<noteq> CONTRIBUTOR \<longrightarrow> isPublic row = False)
             \<and> (\<forall>out. fst (generateSignedUrl env w fileName fileType fileSize isPublicReq user)
                          = Inr out
                      \<longrightarrow> su_fileId out = file_id row \<and> su_fileKey out = fileKey row)"
    using w' out by (intro exI[of _ ?row]) simp
next
  assume bad: "\<not> (fileType \<in> set allowedFileTypes \<and> fileSize \<le> maxFileSize
      \<and> user_id user \<noteq> [] \<and> create_fault env = None)"
  then show "files (snd (generateSignedUrl env w fileName fileType fileSize isPublicReq user))
      = files w
      \<and> (\<exists>e. fst (generateSignedUrl env w fileName fileType fileSize isPublicReq user) = Inl e)"
    by (auto simp: generateSignedUrl_def Let_def split: option.splits)
qed

lemma upload_example_ok:
  "''text/plain'' \<in> set allowedFileTypes" "(11::int) \<le> maxFileSize"
  "create_fault example_upload_env = None"
  "user_id admin_user \<noteq> []" "user_id contributor_user \<noteq> []" "user_id plain_user \<noteq> []"
  by (simp_all add: allowedFileTypes_def maxFileSize_def example_upload_env_def
        admin_user_def contributor_user_def plain_user_def)

theorem generateSignedUrl_isPublic_witness:
  "''text/plain'' \<in> set allowedFileTypes \<and> (11::int) \<le> maxFileSize
   \<and> user_id admin_user \<noteq> [] \<and> user_id plain_user \<noteq> []
   \<and> create_fault example_upload_env = None
   \<and> (\<exists>row. files (snd (generateSignedUrl example_upload_env empty_world ''hello.txt''
                          ''text/plain'' 11 True admin_user)) = files empty_world @ [row]
           \<and> file_userId row = ''root'' \<and> status row = PENDING \<and> isPublic row = True)
   \<and> (\<exists>row. files (snd (generateSignedUrl example_upload_env empty_world ''hello.txt''
                          ''text/plain'' 11 True plain_user)) = files empty_world @ [row]
           \<and> file_userId row = ''alice'' \<and> status row = PENDING \<and> isPublic row = False)
   \<and> files (snd (generateSignedUrl example_upload_env empty_world ''hello.exe''
                    ''application/x-msdownload'' 11 True admin_user)) = files empty_world"
proof -
  note t_admin = generateSignedUrl_isPublic[of "''text/plain''" 11 admin_user example_upload_env
      empty_world "''hello.txt''" True]
  note t_plain = generateSignedUrl_isPublic[of "''text/plain''" 11 plain_user example_upload_env
      empty_world "''hello.txt''" True]
  note t_exe = generateSignedUrl_isPublic[of "''application/x-msdownload''" 11 admin_user
      example_upload_env empty_world "''hello.exe''" True]
  from t_admin upload_example_ok
  obtain r1 where r1: "files (snd (generateSignedUrl example_upload_env empty_world ''hello.txt''
                          ''text/plain'' 11 True admin_user)) = files empty_world @ [r1]"
      "file_userId r1 = user_id admin_user" "status r1 = PENDING"
      "isPublic r1 = (True \<and> (role admin_user = ADMIN \<or> role admin_user = CONTRIBUTOR))"
    by blast
  from t_plain upload_example_ok
  obtain r2 where r2: "files (snd (generateSignedUrl example_upload_env empty_world ''hello.txt''
                          ''text/plain'' 11 True plain_user)) = files empty_world @ [r2]"
      "file_userId r2 = user_id plain_user" "status r2 = PENDING"
      "isPublic r2 = (True \<and> (role plain_user = ADMIN \<or> role plain_user = CONTRIBUTOR))"
    by blast
  have "''application/x-msdownload'' \<notin> set allowedFileTypes"
    by (simp add: allowedFileTypes_def)
  with t_exe
  have exe: "files (snd (generateSignedUrl example_upload_env empty_world ''hello.exe''
                    ''application/x-msdownload'' 11 True admin_user)) = files empty_world"
    by blast
  have a: "\<exists>row. files (snd (generateSignedUrl example_upload_env empty_world ''hello.txt''
                          ''text/plain'' 11 True admin_user)) = files empty_world @ [row]
           \<and> file_userId row = ''root'' \<and> status row = PENDING \<and> isPublic row = True"
    using r1 by (intro exI[of _ r1]) (simp add: admin_user_def)
  have p: "\<exists>row. files (snd (generateSignedUrl example_upload_env empty_world ''hello.txt''
                          ''text/plain'' 11 True plain_user)) = files empty_world @ [row]
           \<and> file_userId row = ''alice'' \<and> status row = PENDING \<and> isPublic row = False"
    using r2 by (intro exI[of _ r2]) (simp add: plain_user_def)
  from upload_example_ok a p exe show ?thesis by blast
qed

subsection \<open>Chunker\<close>

lemma take_hd_chunker: "take chunkOverlap (hd (chunker s)) = take chunkOverlap s"
  by (subst chunker.simps) (simp add: chunkSize_def chunkOverlap_def)

lemma chunker_nonempty: "chunker s \<noteq> []"
  by (subst chunker.simps) simp

lemma chunker_overlap_step:
  "Suc i < length (chunker t) \<Longrightarrow>
   take chunkOverlap (chunker t ! Suc i)
     = drop (length (chunker t ! i) - chunkOverlap) (chunker t ! i)"
proof (induction t arbitrary: i rule: chunker.induct)
  case (1 t)
  show ?case
  proof (cases "length t \<le> chunkSize")
    case True
    with "1.prems" show ?thesis by (subst (asm) chunker.simps) simp
  next
    case False
    then have unfold: "chunker t = take chunkSize t # chunker (drop (chunkSize - chunkOverlap) t)"
      by (subst chunker.simps) simp
    show ?thesis
    proof (cases i)
      case 0
      have "chunker t ! Suc 0 = hd (chunker (drop (chunkSize - chunkOverlap) t))"
        using unfold chunker_nonempty by (simp add: hd_conv_nth)
      moreover have "take chunkOverlap (drop (chunkSize - chunkOverlap) t)
          = drop (length (take chunkSize t) - chunkOverlap) (take chunkSize t)"
        using False by (simp add: chunkSize_def chunkOverlap_def drop_take)
      ultimately show ?thesis using 0 unfold by (simp add: take_hd_chunker)
    next
      case (Suc j)
      with "1.prems" unfold have "Suc j < length (chunker (drop (chunkSize - chunkOverlap) t))"
        by simp
      from "1.IH"[OF False this] show ?thesis using Suc unfold by simp
    qed
  qed
qed

lemma chunker_1800:
  assumes "length t = 1800"
  shows "chunker t = [take 1000 t, drop 800 t]"
proof -
  have "chunker t = take 1000 t # chunker (drop 800 t)"
    using assms by (subst chunker.simps) (simp add: chunkSize_def chunkOverlap_def)
  moreover have "chunker (drop 800 t) = [drop 800 t]"
    using assms by (subst chunker.simps) (simp add: chunkSize_def chunkOverlap_def)
  ultimately show ?thesis by simp
qed

lemma length_digits_1800: "length digits_1800 = 1800"
  by (simp add: digits_1800_def length_concat sum_list_replicate)

lemma concat_drop_chunker:
  "concat (map (drop chunkOverlap) (chunker s)) = drop chunkOverlap s"
proof (induction s rule: chunker.induct)
  case (1 t)
  show ?case
  proof (cases "length t \<le> chunkSize")
    case True
    then show ?thesis by (subst chunker.simps) simp
  next
    case False
    have "drop chunkOverlap (take chunkSize t) @ drop chunkOverlap (drop (chunkSize - chunkOverlap) t)
          = drop chunkOverlap t"
    proof -
      have "drop chunkOverlap (take chunkSize t) = take (chunkSize - chunkOverlap) (drop chunkOverlap t)"
        by (simp add: drop_take)
      moreover have "drop chunkOverlap (drop (chunkSize - chunkOverlap) t)
          = drop (chunkSize - chunkOverlap) (drop chunkOverlap t)"
        by (simp add: add.commute)
      ultimately show ?thesis by (simp del: drop_drop)
    qed
    with "1.IH"[OF False] False show ?thesis by (subst chunker.simps) simp
  qed
qed

lemma non_overlapping_chunker: "non_overlapping (chunker t) = t"
proof (cases "length t \<le> chunkSize")
  case True
  then show ?thesis by (subst chunker.simps) simp
next
  case False
  then have "non_overlapping (chunker t)
      = take chunkSize t @ drop chunkOverlap (drop (chunkSize - chunkOverlap) t)"
    by (subst chunker.simps) (simp add: concat_drop_chunker)
  also have "\<dots> = t" by (simp add: chunkSize_def chunkOverlap_def)
  finally show ?thesis .
qed

lemma chunker_length_le: "c \<in> set (chunker t) \<Longrightarrow> length c \<le> chunkSize"
proof (induction t rule: chunker.induct)
  case (1 t)
  show ?case
  proof (cases "length t \<le> chunkSize")
    case True
    with "1.prems" show ?thesis by (subst (asm) chunker.simps) simp
  next
    case False
    with "1.prems" have "c = take chunkSize t \<or> c \<in> set (chunker (drop (chunkSize - chunkOverlap) t))"
      by (subst (asm) chunker.simps) simp
    then show ?thesis using "1.IH"[OF False] by auto
  qed
qed

text \<open>
  C4. For every text of at least 1000 characters, the first 200 characters of every chunk
  after the first are the last 200 characters of the chunk before it; and a text of 1800
  characters gives exactly two chunks, the first 200 characters of the second being the
  characters [800, 1000) of the first.
\<close>

theorem chunker_overlap:
  assumes "1000 \<le> length t"
  shows "(\<forall>i. 0 < i \<and> i < length (chunker t) \<longrightarrow>
            take 200 (chunker t ! i)
              = drop (length (chunker t ! (i - 1)) - 200) (chunker t ! (i - 1)))
       \<and> (length t = 1800 \<longrightarrow>
            length (chunker t) = 2
            \<and> take 200 (chunker t ! 1) = take 200 (drop 800 (chunker t ! 0)))"
proof (intro conjI allI impI)
  fix i assume "0 < i \<and> i < length (chunker t)"
  then obtain j where "i = Suc j" "Suc j < length (chunker t)"
    by (cases i) auto
  then show "take 200 (chunker t ! i)
      = drop (length (chunker t ! (i - 1)) - 200) (chunker t ! (i - 1))"
    using chunker_overlap_step[of j t] by (simp add: chunkOverlap_def)
next
  assume "length t = 1800"
  then show "length (chunker t) = 2" by (simp add: chunker_1800)
next
  assume len: "length t = 1800"
  then show "take 200 (chunker t ! 1) = take 200 (drop 800 (chunker t ! 0))"
    by (simp add: chunker_1800 drop_take)
qed

theorem chunker_overlap_witness:
  "1000 \<le> length digits_1800
   \<and> length (chunker digits_1800) = 2
   \<and> take 200 (chunker digits_1800 ! 1) = take 200 (drop 800 (chunker digits_1800 ! 0))
   \<and> take 200 (chunker digits_1800 ! 1)
       = drop (length (chunker digits_1800 ! 0) - 200) (chunker digits_1800 ! 0)"
proof -
  have h: "1000 \<le> length digits_1800" by (simp add: length_digits_1800)
  from chunker_overlap[OF h] have
    a: "\<forall>i. 0 < i \<and> i < length (chunker digits_1800) \<longrightarrow>
            take 200 (chunker digits_1800 ! i)
              = drop (length (chunker digits_1800 ! (i - 1)) - 200) (chunker digits_1800 ! (i - 1))"
    and b: "length digits_1800 = 1800 \<longrightarrow>
            length (chunker digits_1800) = 2
            \<and> take 200 (chunker digits_1800 ! 1) = take 200 (drop 800 (chunker digits_1800 ! 0))"
    by blast+
  from b have c: "length (chunker digits_1800) = 2
      \<and> take 200 (chunker digits_1800 ! 1) = take 200 (drop 800 (chunker digits_1800 ! 0))"
    by (simp add: length_digits_1800)
  from a[rule_format, of 1] c have "take 200 (chunker digits_1800 ! 1)
       = drop (length (chunker digits_1800 ! 0) - 200) (chunker digits_1800 ! 0)"
    by simp
  with h c show ?thesis by blast
qed

text \<open>
  C5. For every text, the non-overlapping portions of the chunks, concatenated in order, are
  the text itself, and no chunk is longer than 1000 characters.
\<close>

theorem chunker_coverage:
  "non_overlapping (chunker t) = t \<and> (\<forall>c \<in> set (chunker t). length c \<le> 1000)"
  using non_overlapping_chunker chunker_length_le by (auto simp: chunkSize_def)

theorem chunker_coverage_witness:
  "take 1000 digits_1800 \<in> set (chunker digits_1800)
   \<and> length (take 1000 digits_1800) \<le> 1000
   \<and> non_overlapping (chunker digits_1800) = digits_1800"
proof -
  have m: "take 1000 digits_1800 \<in> set (chunker digits_1800)"
    by (simp add: chunker_1800 length_digits_1800)
  from chunker_coverage[of digits_1800] m show ?thesis by blast
qed

subsection \<open>Retrieval\<close>

lemma similarity_rows_subset:
  "set (similarity_rows cosine q userId w) \<subseteq> set (filter (where_clause userId) (left_join w))"
  unfolding similarity_rows_def using set_take_subset by fastforce

lemma asc_key_le:
  "asc_key a \<le> asc_key b \<longleftrightarrow>
     (case (a, b) of (Some x, Some y) \<Rightarrow> x \<le> y | (None, Some y) \<Rightarrow> False | _ \<Rightarrow> True)"
  by (auto simp: asc_key_def split: option.splits)

lemma similarity_rows_sorted:
  "sorted (map (\<lambda>r. asc_key (distance cosine q r)) (similarity_rows cosine q userId w))"
  unfolding similarity_rows_def by (simp add: sorted_wrt_take take_map[symmetric])

lemma similarity_rows_length: "length (similarity_rows cosine q userId w) \<le> 5"
  unfolding similarity_rows_def by simp

lemma filter_one_of_three:
  assumes "mset xs = {#a, b, c#}" "P a" "\<not> P b" "\<not> P c"
  shows "filter P xs = [a]"
proof -
  have "mset (filter P xs) = filter_mset P (mset xs)" by simp
  also have "\<dots> = {#a#}" using assms by simp
  finally have "mset (filter P xs) = mset [a]" by simp
  then show ?thesis by (metis mset_eq_length length_Suc_conv length_0_conv mset.simps(2) mset.simps(1) add_mset_eq_single list.size(3) mset_zero_iff single_eq_single)
qed

lemma sort_three:
  fixes f :: "'a \<Rightarrow> 'k::linorder"
  assumes m: "mset xs = {#a, b, c#}" and ab: "f a < f b" and bc: "f b < f c"
  shows "sort_key f xs = [a, b, c]"
proof (rule properties_for_sort_key)
  show "mset [a, b, c] = mset xs" using m by simp
next
  show "sorted (map f [a, b, c])" using ab bc less_trans[OF ab bc] by (simp add: less_imp_le)
next
  fix k assume "k \<in> set [a, b, c]"
  then consider "k = a" | "k = b" | "k = c" by auto
  then show "filter (\<lambda>x. f k = f x) [a, b, c] = filter (\<lambda>x. f k = f x) xs"
  proof cases
    case 1
    have "filter (\<lambda>x. f a = f x) xs = [a]"
      using filter_one_of_three[OF m, of "\<lambda>x. f a = f x"] ab bc by auto
    with 1 ab bc show ?thesis by auto
  next
    case 2
    have "mset xs = {#b, a, c#}" using m by (simp add: add_mset_commute)
    then have "filter (\<lambda>x. f b = f x) xs = [b]"
      using filter_one_of_three[of xs b a c "\<lambda>x. f b = f x"] ab bc by auto
    with 2 ab bc show ?thesis by auto
  next
    case 3
    have "mset xs = {#c, a, b#}" using m by (simp add: add_mset_commute)
    then have "filter (\<lambda>x. f c = f x) xs = [c]"
      using filter_one_of_three[of xs c a b "\<lambda>x. f c = f x"] ab bc by auto
    with 3 ab bc show ?thesis by auto
  qed
qed

lemmas retrieval_fixtures =
  retrieval_world_def alice_file_def bob_private_def bob_public_def
  doc_far_def doc_secret_def doc_mid_def doc_near_def

lemma visible_to_alice:
  "filter (where_clause ''alice'') (left_join retrieval_world)
     = [(doc_far, Some alice_file), (doc_mid, Some bob_public), (doc_near, Some alice_file)]"
  by (simp add: left_join_def where_clause_def findUnique_def retrieval_fixtures)

lemma example_distances:
  "distance precomputed [] (doc_far, Some alice_file) = Some 0.9"
  "distance precomputed [] (doc_mid, Some bob_public) = Some 0.5"
  "distance precomputed [] (doc_near, Some alice_file) = Some 0.1"
  by (simp_all add: distance_def retrieval_fixtures)

lemma rows_for_alice:
  "similarity_rows precomputed [] ''alice'' retrieval_world
       = [(doc_near, Some alice_file), (doc_mid, Some bob_public), (doc_far, Some alice_file)]"
  unfolding similarity_rows_def visible_to_alice
  by (simp add: asc_key_def example_distances)

text \<open>
  C1. Every row the similarity query of \<open>chat\<close> returns for a user is a chunk of the store
  joined with its file, and it satisfies the authorization predicate: the chunk's owning
  user is that user, or its file is public. No returned chunk has another owner and a file
  that is not public.
\<close>

theorem retrieval_authorized:
  "\<forall>r \<in> set (similarity_rows cosine q userId w).
     fst r \<in> set (documents w)
     \<and> snd r = findUnique (files w) (doc_fileId (fst r))
     \<and> (doc_userId (fst r) = userId \<or> (\<exists>f. snd r = Some f \<and> isPublic f))
     \<and> \<not> (doc_userId (fst r) \<noteq> userId \<and> (\<exists>f. snd r = Some f \<and> \<not> isPublic f))"
proof
  fix r assume "r \<in> set (similarity_rows cosine q userId w)"
  then have "r \<in> set (filter (where_clause userId) (left_join w))"
    using similarity_rows_subset by blast
  then show "fst r \<in> set (documents w)
     \<and> snd r = findUnique (files w) (doc_fileId (fst r))
     \<and> (doc_userId (fst r) = userId \<or> (\<exists>f. snd r = Some f \<and> isPublic f))
     \<and> \<not> (doc_userId (fst r) \<noteq> userId \<and> (\<exists>f. snd r = Some f \<and> \<not> isPublic f))"
    by (auto simp: left_join_def where_clause_def split: option.splits)
qed

theorem retrieval_authorized_witness:
  "(doc_mid, Some bob_public) \<in> set (similarity_rows precomputed [] ''alice'' retrieval_world)
   \<and> (doc_userId doc_mid = ''alice'' \<or> isPublic bob_public)
   \<and> (doc_secret, Some bob_private) \<notin> set (similarity_rows precomputed [] ''alice'' retrieval_world)"
proof -
  have m: "(doc_mid, Some bob_public) \<in> set (similarity_rows precomputed [] ''alice'' retrieval_world)"
    by (simp add: rows_for_alice)
  have "doc_userId doc_mid = ''alice'' \<or> isPublic bob_public"
    using retrieval_authorized[of precomputed "[]" "''alice''" retrieval_world, rule_format, OF m]
    by auto
  moreover have "(doc_secret, Some bob_private) \<notin> set (similarity_rows precomputed [] ''alice'' retrieval_world)"
  proof
    assume s: "(doc_secret, Some bob_private) \<in> set (similarity_rows precomputed [] ''alice'' retrieval_world)"
    from retrieval_authorized[of precomputed "[]" "''alice''" retrieval_world, rule_format, OF s]
    show False by (simp add: doc_secret_def bob_private_def)
  qed
  ultimately show ?thesis using m by blast
qed

text \<open>
  C6. The rows the similarity query of \<open>chat\<close> returns are at most five and are in ascending
  order of distance to the query vector (a NULL distance after every number); three visible
  chunks at distances 0.1, 0.5 and 0.9 are returned in that order, whatever their row order.
\<close>

theorem retrieval_ranked:
  "length (similarity_rows cosine q userId w) \<le> 5
   \<and> (\<forall>i j. i < j \<and> j < length (similarity_rows cosine q userId w) \<longrightarrow>
         (case (distance cosine q (similarity_rows cosine q userId w ! i),
                distance cosine q (similarity_rows cosine q userId w ! j)) of
            (Some x, Some y) \<Rightarrow> x \<le> y
          | (None, Some y) \<Rightarrow> False
          | _ \<Rightarrow> True))
   \<and> (mset (filter (where_clause userId) (left_join w)) = {#a, b, c#}
        \<and> distance cosine q a = Some 0.1 \<and> distance cosine q b = Some 0.5
        \<and> distance cosine q c = Some 0.9
        \<longrightarrow> similarity_rows cosine q userId w = [a, b, c])"
proof (intro conjI allI impI)
  show "length (similarity_rows cosine q userId w) \<le> 5" by (rule similarity_rows_length)
next
  fix i j
  let ?rs = "similarity_rows cosine q userId w"
  assume ij: "i < j \<and> j < length ?rs"
  have "sorted (map (\<lambda>r. asc_key (distance cosine q r)) ?rs)" by (rule similarity_rows_sorted)
  then have "map (\<lambda>r. asc_key (distance cosine q r)) ?rs ! i
      \<le> map (\<lambda>r. asc_key (distance cosine q r)) ?rs ! j"
    using ij by (intro sorted_nth_mono) auto
  then have "asc_key (distance cosine q (?rs ! i)) \<le> asc_key (distance cosine q (?rs ! j))"
    using ij by simp
  then show "case (distance cosine q (?rs ! i), distance cosine q (?rs ! j)) of
            (Some x, Some y) \<Rightarrow> x \<le> y
          | (None, Some y) \<Rightarrow> False
          | _ \<Rightarrow> True"
    by (simp only: asc_key_le)
next
  assume h: "mset (filter (where_clause userId) (left_join w)) = {#a, b, c#}
        \<and> distance cosine q a = Some 0.1 \<and> distance cosine q b = Some 0.5
        \<and> distance cosine q c = Some 0.9"
  then have "sort_key (\<lambda>r. asc_key (distance cosine q r))
               (filter (where_clause userId) (left_join w)) = [a, b, c]"
    by (intro sort_three) (simp_all add: asc_key_def)
  then show "similarity_rows cosine q userId w = [a, b, c]"
    by (simp add: similarity_rows_def)
qed

theorem retrieval_ranked_witness:
  "mset (filter (where_clause ''alice'') (left_join retrieval_world))
     = {#(doc_near, Some alice_file), (doc_mid, Some bob_public), (doc_far, Some alice_file)#}
   \<and> distance precomputed [] (doc_near, Some alice_file) = Some 0.1
   \<and> distance precomputed [] (doc_mid, Some bob_public) = Some 0.5
   \<and> distance precomputed [] (doc_far, Some alice_file) = Some 0.9
   \<and> similarity_rows precomputed [] ''alice'' retrieval_world
       = [(doc_near, Some alice_file), (doc_mid, Some bob_public), (doc_far, Some alice_file)]"
proof -
  have m: "mset (filter (where_clause ''alice'') (left_join retrieval_world))
     = {#(doc_near, Some alice_file), (doc_mid, Some bob_public), (doc_far, Some alice_file)#}"
    by (simp add: visible_to_alice add_mset_commute)
  from retrieval_ranked[of precomputed "[]" "''alice''" retrieval_world
      "(doc_near, Some alice_file)" "(doc_mid, Some bob_public)" "(doc_far, Some alice_file)"]
    m example_distances
  show ?thesis by blast
qed

subsection \<open>Chat\<close>

lemma retrieve_calls:
  "hd (snd (retrieve_and_answer env w messages userId sq)) = EmbedCall sq
   \<and> filter is_rewrite_call (snd (retrieve_and_answer env w messages userId sq)) = []"
  by (simp add: retrieve_and_answer_def is_rewrite_call_def Let_def split: sum.splits option.splits)

lemma retrieve_succeeds:
  "embed_query env sq = Inr v \<Longrightarrow> queryRaw_fault env = None \<Longrightarrow>
   \<exists>res. fst (retrieve_and_answer env w messages userId sq) = Inr res"
  by (simp add: retrieve_and_answer_def Let_def)

text \<open>
  C7. With exactly one message (whose content is not empty) the search query handed to the
  embedding is that message's content, and no call to the rewriter is made; with more than
  one message and a failing rewriter call, the search query is the content of the last
  message, the request goes on as it would with that query, and it succeeds whenever the
  embedding and the query do.
\<close>

theorem chat_search_query:
  "(length messages = 1 \<and> msg_content (last messages) \<noteq> [] \<longrightarrow>
      chat env w messages userId
        = retrieve_and_answer env w messages userId (msg_content (last messages))
      \<and> hd (snd (chat env w messages userId)) = EmbedCall (msg_content (last messages)))
   \<and> (length messages = 1 \<longrightarrow> filter is_rewrite_call (snd (chat env w messages userId)) = [])
   \<and> (length messages > 1 \<and> msg_content (last messages) \<noteq> []
        \<and> generateText_rewrite env messages = Inl e \<longrightarrow>
      chat env w messages userId
        = (fst (retrieve_and_answer env w messages userId (msg_content (last messages))),
           RewriteCall messages
             # snd (retrieve_and_answer env w messages userId (msg_content (last messages))))
      \<and> (\<forall>v. embed_query env (msg_content (last messages)) = Inr v \<and> queryRaw_fault env = None
             \<longrightarrow> (\<exists>res. fst (chat env w messages userId) = Inr res)))"
proof (intro conjI impI)
  assume h: "length messages = 1 \<and> msg_content (last messages) \<noteq> []"
  then have ne: "messages \<noteq> []" by auto
  with h show eq: "chat env w messages userId
        = retrieve_and_answer env w messages userId (msg_content (last messages))"
    by (simp add: chat_def refine_query_def Let_def split: prod.splits)
  show "hd (snd (chat env w messages userId)) = EmbedCall (msg_content (last messages))"
    unfolding eq using retrieve_calls by blast
next
  assume h: "length messages = 1"
  then have ne: "messages \<noteq> []" by auto
  show "filter is_rewrite_call (snd (chat env w messages userId)) = []"
  proof (cases "msg_content (last messages) = []")
    case True
    then show ?thesis by (simp add: chat_def)
  next
    case False
    with h ne have "chat env w messages userId
        = retrieve_and_answer env w messages userId (msg_content (last messages))"
      by (simp add: chat_def refine_query_def Let_def split: prod.splits)
    then show ?thesis using retrieve_calls by simp
  qed
next
  assume h: "length messages > 1 \<and> msg_content (last messages) \<noteq> []
        \<and> generateText_rewrite env messages = Inl e"
  then have ne: "messages \<noteq> []" by auto
  with h show "chat env w messages userId
        = (fst (retrieve_and_answer env w messages userId (msg_content (last messages))),
           RewriteCall messages
             # snd (retrieve_and_answer env w messages userId (msg_content (last messages))))"
    by (simp add: chat_def refine_query_def Let_def split: prod.splits)
  then show "\<forall>v. embed_query env (msg_content (last messages)) = Inr v \<and> queryRaw_fault env = None
             \<longrightarrow> (\<exists>res. fst (chat env w messages userId) = Inr res)"
    using retrieve_succeeds by auto
qed

theorem chat_search_query_witness:
  "length one_turn = 1 \<and> msg_content (last one_turn) \<noteq> []
   \<and> hd (snd (chat example_chat_env retrieval_world one_turn ''alice''))
       = EmbedCall ''What is the budget?''
   \<and> filter is_rewrite_call (snd (chat example_chat_env retrieval_world one_turn ''alice'')) = []
   \<and> length three_turns > 1 \<and> msg_content (last three_turns) \<noteq> []
   \<and> generateText_rewrite example_chat_env three_turns = Inl model_down
   \<and> take 2 (snd (chat example_chat_env retrieval_world three_turns ''alice''))
       = [RewriteCall three_turns, EmbedCall ''What is his email?'']
   \<and> (\<exists>res. fst (chat example_chat_env retrieval_world three_turns ''alice'') = Inr res)"
proof -
  have one: "length one_turn = 1 \<and> msg_content (last one_turn) \<noteq> []"
    by (simp add: one_turn_def)
  have three: "length three_turns > 1 \<and> msg_content (last three_turns) \<noteq> []
      \<and> generateText_rewrite example_chat_env three_turns = Inl model_down"
    by (simp add: three_turns_def example_chat_env_def failing_rewriter_def)
  have c1: "msg_content (last one_turn) = ''What is the budget?''"
    by (simp add: one_turn_def)
  have c3: "msg_content (last three_turns) = ''What is his email?''"
    by (simp add: three_turns_def)
  have ok: "embed_query example_chat_env ''What is his email?'' = Inr []
      \<and> queryRaw_fault example_chat_env = None"
    by (simp add: example_chat_env_def example_embed_query_def)
  note t1 = chat_search_query[of one_turn example_chat_env retrieval_world "''alice''" model_down]
  note t3 = chat_search_query[of three_turns example_chat_env retrieval_world "''alice''" model_down]
  from t1 one have "hd (snd (chat example_chat_env retrieval_world one_turn ''alice''))
       = EmbedCall (msg_content (last one_turn))
     \<and> filter is_rewrite_call (snd (chat example_chat_env retrieval_world one_turn ''alice'')) = []"
    by blast
  then have a: "hd (snd (chat example_chat_env retrieval_world one_turn ''alice''))
       = EmbedCall ''What is the budget?''
     \<and> filter is_rewrite_call (snd (chat example_chat_env retrieval_world one_turn ''alice'')) = []"
    using c1 by simp
  from t3 three have eq: "chat example_chat_env retrieval_world three_turns ''alice''
        = (fst (retrieve_and_answer example_chat_env retrieval_world three_turns ''alice''
                  (msg_content (last three_turns))),
           RewriteCall three_turns
             # snd (retrieve_and_answer example_chat_env retrieval_world three_turns ''alice''
                      (msg_content (last three_turns))))"
    by blast
  have "take 2 (snd (chat example_chat_env retrieval_world three_turns ''alice''))
       = [RewriteCall three_turns, EmbedCall ''What is his email?'']"
    unfolding eq c3 using ok by (simp add: retrieve_and_answer_def Let_def)
  moreover from t3 three ok c3
  have "\<exists>res. fst (chat example_chat_env retrieval_world three_turns ''alice'') = Inr res"
    by metis
  ultimately show ?thesis using one three a by blast
qed

subsection \<open>Chat validation\<close>

lemma messageSchema_iff:
  "messageSchema m \<longleftrightarrow>
     (\<exists>kvs r c. m = JObj kvs \<and> property kvs ''role'' = Some (JStr r)
        \<and> r \<in> {''user'', ''assistant'', ''system'', ''data''}
        \<and> property kvs ''content'' = Some (JStr c))"
  by (cases m) (auto simp: messageSchema_def z_object_def z_enum_def z_string_def
                     split: option.splits json.splits)

lemma chatBodySchema_iff:
  "chatBodySchema body \<longleftrightarrow>
     (\<exists>kvs ms. body = JObj kvs \<and> property kvs ''messages'' = Some (JArr ms)
        \<and> ms \<noteq> [] \<and> list_all messageSchema ms)"
  by (cases body) (auto simp: chatBodySchema_def z_object_def z_array_min_def Suc_le_eq
                     split: option.splits json.splits)

lemma spec_message_imp: "spec_message m \<Longrightarrow> messageSchema m"
  unfolding messageSchema_iff
  by (cases m) (auto simp: spec_message_def split: option.splits json.splits)

lemma spec_chat_body_imp: "spec_chat_body body \<Longrightarrow> chatBodySchema body"
  unfolding chatBodySchema_iff
  by (cases body) (auto simp: spec_chat_body_def list_all_iff spec_message_imp
                     split: option.splits json.splits)

text \<open>
  C9, as the claim states it, fails: the schema accepts a conversation that contains a
  system message and ends with it.
\<close>

theorem chatBodySchema_counterexample:
  "chatBodySchema system_last_body \<and> \<not> spec_chat_body system_last_body"
  by (simp add: system_last_body_def chatBodySchema_def messageSchema_def z_object_def
        z_array_min_def z_enum_def z_string_def property_def spec_chat_body_def
        spec_message_def role_of_def)

text \<open>
  C9, amended. \<open>chatBodySchema\<close> accepts a body exactly when it is an object whose
  \<open>messages\<close> is an array with at least one element, every element being an object with a
  role among "user", "assistant", "system" and "data" and a string content. Every body of
  the shape the specification describes is accepted; no condition is put on the role of the
  last element.
\<close>

theorem chatBodySchema_accepts:
  "(spec_chat_body body \<longrightarrow> chatBodySchema body)
   \<and> (chatBodySchema body \<longleftrightarrow>
        (\<exists>kvs ms. body = JObj kvs \<and> property kvs ''messages'' = Some (JArr ms) \<and> ms \<noteq> []
           \<and> (\<forall>m \<in> set ms. \<exists>fields r c.
                 m = JObj fields \<and> property fields ''role'' = Some (JStr r)
                 \<and> r \<in> {''user'', ''assistant'', ''system'', ''data''}
                 \<and> property fields ''content'' = Some (JStr c))))"
  using spec_chat_body_imp
  by (auto simp: chatBodySchema_iff list_all_iff messageSchema_iff)

theorem chatBodySchema_accepts_witness:
  "spec_chat_body user_body \<and> chatBodySchema user_body \<and> \<not> chatBodySchema no_messages_body"
proof -
  have s: "spec_chat_body user_body"
    by (simp add: user_body_def spec_chat_body_def spec_message_def role_of_def property_def)
  from chatBodySchema_accepts[of user_body] s have a: "chatBodySchema user_body" by blast
  from chatBodySchema_accepts[of no_messages_body]
  have "\<not> chatBodySchema no_messages_body"
    by (auto simp: no_messages_body_def property_def)
  with s a show ?thesis by blast
qed

subsection \<open>Ingestion worker\<close>

lemmas ingest_fixtures =
  quiet_env_def no_fault_def example_sha256_def example_pdf_def example_image_def
  example_utf8_def example_splitter_def example_embed_def hello_bytes_def
  delete_fails_env_def delete_fails_def embed_fails_env_def embed_second_fails_def
  embed_and_mark_fail_env_def mark_fails_def s3_down_def db_down_def model_down_def
  job_1_def upload_file_def earlier_file_def empty_world_def upload_world_def
  duplicate_world_def

lemmas ingest_defs =
  processJob_def ingest_def mark_failed_def dedup_and_index_def index_text_def
  parse_text_def prisma_file_update_def prisma_file_delete_def s3_getObject_def
  s3_deleteObject_def findUnique_def findDuplicate_def trim_def is_white_space_def
  recordNotFound_def noSuchKey_def

lemma findUnique_Some_id: "findUnique fs i = Some f \<Longrightarrow> file_id f = i"
  by (induction fs) (auto simp: findUnique_def split: if_splits)

lemma findUnique_update:
  assumes "\<And>r. file_id (upd r) = file_id r"
  shows "findUnique (map (\<lambda>r. if file_id r = i then upd r else r) fs) i
           = map_option upd (findUnique fs i)"
  using assms by (induction fs) (auto simp: findUnique_def)

lemma update_absent:
  "findUnique fs i = None \<Longrightarrow> map (\<lambda>r. if file_id r = i then upd r else r) fs = fs"
  by (induction fs) (auto simp: findUnique_def split: if_splits)

lemma findDuplicate_update:
  assumes "file_id f = i" and "\<And>r. file_id (upd r) = file_id r"
  shows "findDuplicate (map (\<lambda>r. if file_id r = i then upd r else r) fs) f h
           = findDuplicate fs f h"
proof (induction fs)
  case Nil
  show ?case by (simp add: findDuplicate_def)
next
  case (Cons r rs)
  then show ?case using assms by (cases "file_id r = i") (auto simp: findDuplicate_def)
qed

lemma map_of_filter_key: "map_of (filter (\<lambda>kv. fst kv \<noteq> k) xs) k = None"
  by (induction xs) auto

text \<open>
  C2, as the claim states it, fails: with no row for the job's file the job ends with an
  error.
\<close>

theorem missing_row_counterexample:
  "processJob quiet_env job_1 empty_world
     = (Inl (Error ''File record not found: file-1''), empty_world)"
  by (simp add: ingest_defs ingest_fixtures Let_def)

text \<open>
  C2, amended. When the File row of the job no longer exists, the job raises the error
  \<open>File record not found: <fileId>\<close>; the update to FAILED in the handler finds no row
  either, which is swallowed, and the error is raised again: the job fails and leaves the
  stores as they were.
\<close>

theorem missing_row_raises:
  assumes "fault env FindUnique = None"
    and "findUnique (files w) (data_fileId job) = None"
  shows "processJob env job w
           = (Inl (Error (''File record not found: '' @ data_fileId job)), w)"
  using assms
  by (simp add: processJob_def ingest_def mark_failed_def prisma_file_update_def Let_def
           split: option.splits)

theorem missing_row_raises_witness:
  "fault quiet_env FindUnique = None
   \<and> findUnique (files empty_world) (data_fileId job_1) = None
   \<and> fst (processJob quiet_env job_1 empty_world) = Inl (Error ''File record not found: file-1'')
   \<and> snd (processJob quiet_env job_1 empty_world) = empty_world"
proof -
  have a: "fault quiet_env FindUnique = None"
    by (simp add: quiet_env_def no_fault_def)
  have b: "findUnique (files empty_world) (data_fileId job_1) = None"
    by (simp add: findUnique_def empty_world_def)
  from missing_row_raises[OF a b] a b show ?thesis by (simp add: job_1_def)
qed

text \<open>
  C8. Whenever a step of the job raises an exception, the job attempts to set the File's
  status to FAILED, goes on whether or not that update succeeds, and raises the same
  exception again; it raises nothing else, and does not touch the status when the steps end
  without an exception.
\<close>

theorem processJob_rethrows:
  "(\<forall>e. fst (ingest env job w) = Inl e \<longrightarrow>
       fst (processJob env job w) = Inl e
     \<and> (fault env UpdateFailed = None \<longrightarrow>
          snd (processJob env job w)
            = (snd (ingest env job w))
                \<lparr> files := map (\<lambda>r. if file_id r = data_fileId job then r\<lparr> status := FAILED \<rparr> else r)
                              (files (snd (ingest env job w))) \<rparr>)
     \<and> (fault env UpdateFailed \<noteq> None \<longrightarrow>
          snd (processJob env job w) = snd (ingest env job w)))
   \<and> (\<forall>e. fst (processJob env job w) = Inl e \<longrightarrow> fst (ingest env job w) = Inl e)
   \<and> (\<forall>u. fst (ingest env job w) = Inr u \<longrightarrow> processJob env job w = ingest env job w)"
proof (intro conjI allI impI)
  fix e assume h: "fst (ingest env job w) = Inl e"
  then show "fst (processJob env job w) = Inl e"
    by (cases "ingest env job w") (simp add: processJob_def)
  from h have p: "snd (processJob env job w)
      = mark_failed env (data_fileId job) (snd (ingest env job w))"
    by (cases "ingest env job w") (simp add: processJob_def)
  show "snd (processJob env job w)
            = (snd (ingest env job w))
                \<lparr> files := map (\<lambda>r. if file_id r = data_fileId job then r\<lparr> status := FAILED \<rparr> else r)
                              (files (snd (ingest env job w))) \<rparr>"
    if "fault env UpdateFailed = None"
  proof (cases "findUnique (files (snd (ingest env job w))) (data_fileId job)")
    case None
    then show ?thesis
      using that by (simp add: p mark_failed_def prisma_file_update_def update_absent)
  next
    case (Some r)
    then show ?thesis
      using that by (simp add: p mark_failed_def prisma_file_update_def)
  qed
  show "snd (processJob env job w) = snd (ingest env job w)"
    if "fault env UpdateFailed \<noteq> None"
    using that unfolding p mark_failed_def
    by (auto simp: prisma_file_update_def)
next
  fix e assume "fst (processJob env job w) = Inl e"
  then show "fst (ingest env job w) = Inl e"
    by (cases "ingest env job w") (auto simp: processJob_def split: sum.splits)
next
  fix u assume "fst (ingest env job w) = Inr u"
  then show "processJob env job w = ingest env job w"
    by (cases "ingest env job w") (simp add: processJob_def)
qed

lemma ingest_embed_fails:
  "ingest embed_fails_env job_1 upload_world
     = (Inl model_down,
        \<lparr> files = [upload_file\<lparr> fileHash := Some ''b94d27b9'', status := PROCESSING \<rparr>],
          documents = [\<lparr> content = ''hello'', metadata = [(''originalName'', ''hello.txt'')],
                           doc_userId = ''alice'', doc_fileId = ''file-1'', embedding = Some [5] \<rparr>],
          objects = [(''users/alice/9-hello.txt'', hello_bytes)] \<rparr>)"
  by (simp add: ingest_defs ingest_fixtures Let_def)

lemma ingest_embed_and_mark_fail:
  "ingest embed_and_mark_fail_env job_1 upload_world
     = (Inl model_down,
        \<lparr> files = [upload_file\<lparr> fileHash := Some ''b94d27b9'', status := PROCESSING \<rparr>],
          documents = [\<lparr> content = ''hello'', metadata = [(''originalName'', ''hello.txt'')],
                           doc_userId = ''alice'', doc_fileId = ''file-1'', embedding = Some [5] \<rparr>],
          objects = [(''users/alice/9-hello.txt'', hello_bytes)] \<rparr>)"
  by (simp add: ingest_defs ingest_fixtures Let_def)

theorem processJob_rethrows_witness:
  "fst (ingest embed_fails_env job_1 upload_world) = Inl model_down
   \<and> fault embed_fails_env UpdateFailed = None
   \<and> fst (processJob embed_fails_env job_1 upload_world) = Inl model_down
   \<and> map status (files (snd (processJob embed_fails_env job_1 upload_world))) = [FAILED]
   \<and> fst (ingest embed_and_mark_fail_env job_1 upload_world) = Inl model_down
   \<and> fault embed_and_mark_fail_env UpdateFailed = Some db_down
   \<and> fst (processJob embed_and_mark_fail_env job_1 upload_world) = Inl model_down
   \<and> map status (files (snd (processJob embed_and_mark_fail_env job_1 upload_world)))
       = [PROCESSING]"
proof -
  have i1: "fst (ingest embed_fails_env job_1 upload_world) = Inl model_down"
    by (simp add: ingest_embed_fails)
  have f1: "fault embed_fails_env UpdateFailed = None"
    by (simp add: embed_fails_env_def quiet_env_def no_fault_def)
  have i2: "fst (ingest embed_and_mark_fail_env job_1 upload_world) = Inl model_down"
    by (simp add: ingest_embed_and_mark_fail)
  have f2: "fault embed_and_mark_fail_env UpdateFailed = Some db_down"
    by (simp add: embed_and_mark_fail_env_def quiet_env_def mark_fails_def)
  note t1 = processJob_rethrows[of embed_fails_env job_1 upload_world]
  note t2 = processJob_rethrows[of embed_and_mark_fail_env job_1 upload_world]
  from t1 i1 f1 have r1: "fst (processJob embed_fails_env job_1 upload_world) = Inl model_down"
    and w1: "snd (processJob embed_fails_env job_1 upload_world)
            = (snd (ingest embed_fails_env job_1 upload_world))
                \<lparr> files := map (\<lambda>r. if file_id r = data_fileId job_1 then r\<lparr> status := FAILED \<rparr> else r)
                              (files (snd (ingest embed_fails_env job_1 upload_world))) \<rparr>"
    by blast+
  from t2 i2 f2 have r2: "fst (processJob embed_and_mark_fail_env job_1 upload_world) = Inl model_down"
    and w2: "snd (processJob embed_and_mark_fail_env job_1 upload_world)
            = snd (ingest embed_and_mark_fail_env job_1 upload_world)"
    by auto
  have jid: "data_fileId job_1 = ''file-1''" by (simp add: job_1_def)
  have s1: "map status (files (snd (processJob embed_fails_env job_1 upload_world))) = [FAILED]"
    unfolding w1 jid by (simp add: ingest_embed_fails upload_file_def)
  have s2: "map status (files (snd (processJob embed_and_mark_fail_env job_1 upload_world)))
       = [PROCESSING]"
    unfolding w2 by (simp add: ingest_embed_and_mark_fail upload_file_def)
  from i1 f1 r1 s1 i2 f2 r2 s2 show ?thesis by blast
qed

text \<open>
  C3, as the claim states it, fails: when the deletion of the duplicate's object fails, the
  job ends with that error and the File is FAILED, not DUPLICATE.
\<close>

theorem duplicate_delete_counterexample:
  "findDuplicate (files duplicate_world) upload_file (sha256_hex delete_fails_env hello_bytes)
     = Some earlier_file
   \<and> processJob delete_fails_env job_1 duplicate_world
     = (Inl s3_down,
        duplicate_world\<lparr> files := [earlier_file, upload_file\<lparr> status := FAILED \<rparr>] \<rparr>)"
  by (simp add: ingest_defs ingest_fixtures Let_def)

lemma ingest_to_dedup:
  assumes "fault env FindUnique = None"
    and "findUnique (files w) (data_fileId job) = Some f"
    and "fault env UpdateProcessing = None"
    and "fault env GetObject = None"
    and "map_of (objects w) (fileKey f) = Some body"
    and "\<not> body_absent env"
    and "fault env TransformToByteArray = None"
  shows "ingest env job w
    = dedup_and_index env f body
        (w\<lparr> files := map (\<lambda>r. if file_id r = data_fileId job then r\<lparr> status := PROCESSING \<rparr> else r)
                        (files w) \<rparr>)"
  using assms by (simp add: ingest_def prisma_file_update_def s3_getObject_def Let_def)

text \<open>
  C3, amended. When the deduplication check finds another File of the same user that is
  COMPLETED and has the same hash, the job deletes the uploaded object from storage; if that
  deletion and the status update succeed, the File becomes DUPLICATE with the computed hash
  and the job ends successfully. An error from the deletion is not swallowed: the job ends
  with that error, the object stays, and the File is marked FAILED by the handler.
\<close>

theorem duplicate_found:
  assumes "fault env FindUnique = None"
    and "findUnique (files w) (data_fileId job) = Some f"
    and "fault env UpdateProcessing = None"
    and "fault env GetObject = None"
    and "map_of (objects w) (fileKey f) = Some body"
    and "\<not> body_absent env"
    and "fault env TransformToByteArray = None"
    and "fault env FindFirst = None"
    and "findDuplicate (files w) f (sha256_hex env body) = Some d"
  shows "(fault env DeleteObject = None \<and> fault env UpdateDuplicate = None \<longrightarrow>
            fst (processJob env job w) = Inr ()
          \<and> findUnique (files (snd (processJob env job w))) (data_fileId job)
              = Some (f\<lparr> status := DUPLICATE, fileHash := Some (sha256_hex env body) \<rparr>)
          \<and> map_of (objects (snd (processJob env job w))) (fileKey f) = None)
       \<and> (\<forall>e. fault env DeleteObject = Some e \<longrightarrow>
            fst (processJob env job w) = Inl e
          \<and> objects (snd (processJob env job w)) = objects w
          \<and> (fault env UpdateFailed = None \<longrightarrow>
               findUnique (files (snd (processJob env job w))) (data_fileId job)
                 = Some (f\<lparr> status := FAILED \<rparr>)))"
proof -
  let ?i = "data_fileId job"
  let ?h = "sha256_hex env body"
  define fs1 where
    "fs1 = map (\<lambda>r. if file_id r = ?i then r\<lparr> status := PROCESSING \<rparr> else r) (files w)"
  have id: "file_id f = ?i" using assms(2) by (rule findUnique_Some_id)
  have ing: "ingest env job w = dedup_and_index env f body (w\<lparr> files := fs1 \<rparr>)"
    unfolding fs1_def using assms(1-7) by (rule ingest_to_dedup)
  have dup: "findDuplicate fs1 f ?h = Some d"
    unfolding fs1_def using assms(9) id by (simp add: findDuplicate_update)
  have row: "findUnique fs1 ?i = Some (f\<lparr> status := PROCESSING \<rparr>)"
    unfolding fs1_def using assms(2) by (simp add: findUnique_update)
  show ?thesis
  proof (intro conjI allI impI)
    assume ok: "fault env DeleteObject = None \<and> fault env UpdateDuplicate = None"
    define fs2 where
      "fs2 = map (\<lambda>r. if file_id r = ?i then r\<lparr> status := DUPLICATE, fileHash := Some ?h \<rparr> else r)
               fs1"
    have "ingest env job w
        = (Inr (), w\<lparr> files := fs2,
                       objects := filter (\<lambda>kv. fst kv \<noteq> fileKey f) (objects w) \<rparr>)"
      unfolding ing fs2_def using ok dup row assms(8) id
      by (simp add: dedup_and_index_def s3_deleteObject_def prisma_file_update_def Let_def)
    then have pj: "processJob env job w
        = (Inr (), w\<lparr> files := fs2,
                       objects := filter (\<lambda>kv. fst kv \<noteq> fileKey f) (objects w) \<rparr>)"
      by (simp add: processJob_def)
    show "fst (processJob env job w) = Inr ()" by (simp add: pj)
    have "findUnique fs2 ?i
        = map_option (\<lambda>r. r\<lparr> status := DUPLICATE, fileHash := Some ?h \<rparr>) (findUnique fs1 ?i)"
      unfolding fs2_def by (rule findUnique_update) simp
    then show "findUnique (files (snd (processJob env job w))) ?i
              = Some (f\<lparr> status := DUPLICATE, fileHash := Some ?h \<rparr>)"
      using row by (simp add: pj)
    show "map_of (objects (snd (processJob env job w))) (fileKey f) = None"
      by (simp add: pj map_of_filter_key)
  next
    fix e assume bad: "fault env DeleteObject = Some e"
    have i: "ingest env job w = (Inl e, w\<lparr> files := fs1 \<rparr>)"
      unfolding ing using bad dup assms(8)
      by (simp add: dedup_and_index_def s3_deleteObject_def Let_def)
    then have pj: "processJob env job w = (Inl e, mark_failed env ?i (w\<lparr> files := fs1 \<rparr>))"
      by (simp add: processJob_def)
    show "fst (processJob env job w) = Inl e" by (simp add: pj)
    show "objects (snd (processJob env job w)) = objects w"
      by (simp add: pj mark_failed_def prisma_file_update_def split: option.splits)
    show "findUnique (files (snd (processJob env job w))) ?i = Some (f\<lparr> status := FAILED \<rparr>)"
      if "fault env UpdateFailed = None"
    proof -
      define fs3 where
        "fs3 = map (\<lambda>r. if file_id r = ?i then r\<lparr> status := FAILED \<rparr> else r) fs1"
      have "mark_failed env ?i (w\<lparr> files := fs1 \<rparr>) = w\<lparr> files := fs3 \<rparr>"
        unfolding fs3_def using that row by (simp add: mark_failed_def prisma_file_update_def)
      moreover have "findUnique fs3 ?i
          = map_option (\<lambda>r. r\<lparr> status := FAILED \<rparr>) (findUnique fs1 ?i)"
        unfolding fs3_def by (rule findUnique_update) simp
      ultimately show ?thesis using row by (simp add: pj)
    qed
  qed
qed

theorem duplicate_found_witness:
  "findUnique (files duplicate_world) (data_fileId job_1) = Some upload_file
   \<and> map_of (objects duplicate_world) (fileKey upload_file) = Some hello_bytes
   \<and> findDuplicate (files duplicate_world) upload_file (sha256_hex quiet_env hello_bytes)
       = Some earlier_file
   \<and> fst (processJob quiet_env job_1 duplicate_world) = Inr ()
   \<and> findUnique (files (snd (processJob quiet_env job_1 duplicate_world))) (data_fileId job_1)
       = Some (upload_file\<lparr> status := DUPLICATE, fileHash := Some ''b94d27b9'' \<rparr>)
   \<and> map_of (objects (snd (processJob quiet_env job_1 duplicate_world))) (fileKey upload_file)
       = None
   \<and> fault delete_fails_env DeleteObject = Some s3_down
   \<and> fst (processJob delete_fails_env job_1 duplicate_world) = Inl s3_down
   \<and> findUnique (files (snd (processJob delete_fails_env job_1 duplicate_world)))
        (data_fileId job_1) = Some (upload_file\<lparr> status := FAILED \<rparr>)"
proof -
  have q: "fault quiet_env = no_fault" "\<not> body_absent quiet_env"
    "sha256_hex quiet_env hello_bytes = ''b94d27b9''"
    by (simp_all add: quiet_env_def example_sha256_def)
  have d: "fault delete_fails_env = delete_fails" "\<not> body_absent delete_fails_env"
    "sha256_hex delete_fails_env hello_bytes = ''b94d27b9''"
    by (simp_all add: delete_fails_env_def quiet_env_def example_sha256_def)
  have u: "findUnique (files duplicate_world) (data_fileId job_1) = Some upload_file"
    by (simp add: findUnique_def duplicate_world_def job_1_def upload_file_def earlier_file_def)
  have o: "map_of (objects duplicate_world) (fileKey upload_file) = Some hello_bytes"
    by (simp add: duplicate_world_def upload_file_def)
  have fd: "findDuplicate (files duplicate_world) upload_file ''b94d27b9'' = Some earlier_file"
    by (simp add: findDuplicate_def duplicate_world_def upload_file_def earlier_file_def)
  have good: "fst (processJob quiet_env job_1 duplicate_world) = Inr ()
     \<and> findUnique (files (snd (processJob quiet_env job_1 duplicate_world))) (data_fileId job_1)
         = Some (upload_file\<lparr> status := DUPLICATE, fileHash := Some ''b94d27b9'' \<rparr>)
     \<and> map_of (objects (snd (processJob quiet_env job_1 duplicate_world))) (fileKey upload_file)
         = None"
    using duplicate_found[of quiet_env duplicate_world job_1 upload_file hello_bytes earlier_file]
      u o fd q by (simp add: no_fault_def)
  have fl: "fault delete_fails_env DeleteObject = Some s3_down"
    by (simp add: d delete_fails_def)
  have bad: "fst (processJob delete_fails_env job_1 duplicate_world) = Inl s3_down
     \<and> findUnique (files (snd (processJob delete_fails_env job_1 duplicate_world)))
          (data_fileId job_1) = Some (upload_file\<lparr> status := FAILED \<rparr>)"
    using duplicate_found[of delete_fails_env duplicate_world job_1 upload_file hello_bytes
        earlier_file] u o fd d
    by (simp add: delete_fails_def)
  from u o fd q good fl bad show ?thesis by simp
qed

end
